theory Spec2Isabelle
  imports Complex_Main "HOL-Library.AList"
begin

section \<open>UPSgui: the widget registry (GuiComp) and the colour properties (GuiProps)\<close>

text \<open>
  A shallow embedding of \<^verbatim>\<open>src/UPSmodules/UPSgui.py\<close>.

  \<^item> A Python \<^verbatim>\<open>dict\<close> keeps its keys in insertion order and assigning to a key
    that is present keeps the key's position. Both levels of \<^verbatim>\<open>GuiComp.gc\<close> are
    association lists; \<open>map_of\<close> is the lookup and \<open>AList.update\<close> the assignment
    (replace in place, or append).
  \<^item> Gtk widgets are opaque objects: a widget is its identity, a natural number.
    \<^verbatim>\<open>label.set_text(s)\<close> is the event \<open>SetText label s\<close> of a trace.
  \<^item> The data source (\<^verbatim>\<open>UPSmodule.UpsList\<close>) is not part of the sources. It is a record
    of what \<^verbatim>\<open>uuids()\<close> enumerates and of the lookup \<^verbatim>\<open>data_dict[uuid][name]\<close>, where
    \<open>None\<close> stands for the \<^verbatim>\<open>KeyError\<close> of either subscript. Every lookup is the event
    \<open>Read uuid name\<close> of the trace.
  \<^item> The static field names (\<^verbatim>\<open>UpsComm.all_mib_cmd_names[MIB_group.static]\<close>) and the
    compiled pattern \<^verbatim>\<open>PATTERNS['HEXRGB']\<close> are not part of the sources either; they are
    parameters of the functions that use them.
  \<^item> An exception is a value: every stateful function returns the exception raised
    (if any), the state it leaves behind and the trace of its effects.
\<close>

subsection \<open>Values of the data source\<close>

text \<open>
  The values \<^verbatim>\<open>data_dict[uuid][name]\<close> can hold: \<^verbatim>\<open>None\<close>, a \<^verbatim>\<open>str\<close>, an \<^verbatim>\<open>int\<close>, or a
  hashable object of another built-in type (a float, a tuple), which is carried as the
  text \<^verbatim>\<open>str()\<close> gives for it and compares unequal to every \<^verbatim>\<open>str\<close> and to \<^verbatim>\<open>None\<close>.
  A string is the list of its characters. Values that are not hashable (a list, a dict)
  are not modelled: the membership test of the loop of \<^verbatim>\<open>refresh_gui_data\<close> would raise
  \<^verbatim>\<open>TypeError\<close> for them.
\<close>

datatype pyval = PNone | PStr string | PInt int | POther string

definition digit_char :: "nat \<Rightarrow> char" where
  "digit_char d = ''0123456789'' ! d"

fun str_nat :: "nat \<Rightarrow> string" where
  "str_nat n = (if n < 10 then [digit_char n] else str_nat (n div 10) @ [digit_char (n mod 10)])"

declare str_nat.simps [simp del]

definition str_int :: "int \<Rightarrow> string" where
  "str_int i = (if i < 0 then CHR ''-'' # str_nat (nat (- i)) else str_nat (nat i))"

text \<open>\<^verbatim>\<open>str(value)\<close>\<close>

fun py_str :: "pyval \<Rightarrow> string" where
  "py_str PNone = ''None''"
| "py_str (PStr s) = s"
| "py_str (PInt i) = str_int i"
| "py_str (POther s) = s"

text \<open>
  \<^verbatim>\<open>s[:w]\<close> for an integer \<open>w\<close>: the first \<open>w\<close> characters when \<open>w\<close> is not negative,
  all but the last \<open>-w\<close> characters when it is.
\<close>

definition slice_to :: "int \<Rightarrow> 'a list \<Rightarrow> 'a list" where
  "slice_to w s = (if 0 \<le> w then take (nat w) s else take (length s - nat (- w)) s)"

subsection \<open>Exceptions\<close>

datatype value_error = Invalid_color_name | Invalid_hex_color_format | Invalid_literal_for_int

datatype error = KeyError string | ValueError value_error | TypeError

subsection \<open>GuiComp\<close>

type_synonym widget = nat

text \<open>One entry \<^verbatim>\<open>{'label': label, 'box': box, 'box_name': box_name, 'data': data}\<close>.\<close>

record gui_item =
  label :: widget
  box :: "widget option"
  box_name :: "string option"
  data :: string

record UpsList =
  uuids :: "string list"
  getitem :: "string \<Rightarrow> string \<Rightarrow> pyval option"

record GuiComp =
  gc :: "(string \<times> (string \<times> gui_item) list) list"
  data_dict :: UpsList
  max_width :: int

datatype event = Read string string | SetText widget string

text \<open>\<^verbatim>\<open>GuiComp.__init__\<close>\<close>

definition GuiComp_init :: "UpsList \<Rightarrow> int \<Rightarrow> GuiComp" where
  "GuiComp_init dd w = \<lparr>gc = [], data_dict = dd, max_width = w\<rparr>"

text \<open>\<^verbatim>\<open>GuiComp.add\<close>: the arguments \<open>box\<close> and \<open>box_name\<close> default to \<^verbatim>\<open>None\<close>.\<close>

definition add :: "GuiComp \<Rightarrow> string \<Rightarrow> string \<Rightarrow> widget \<Rightarrow> widget option \<Rightarrow> string option \<Rightarrow> GuiComp" where
  "add self uuid name lbl bx bx_name =
     (let item = \<lparr>label = lbl, box = bx, box_name = bx_name, data = ''---''\<rparr> in
      case map_of (gc self) uuid of
        None \<Rightarrow> self\<lparr>gc := AList.update uuid [(name, item)] (gc self)\<rparr>
      | Some items \<Rightarrow> self\<lparr>gc := AList.update uuid (AList.update name item items) (gc self)\<rparr>)"

text \<open>
  The \<^verbatim>\<open>try\<close> statement of the loop of \<^verbatim>\<open>refresh_gui_data\<close>: a \<^verbatim>\<open>KeyError\<close> of
  \<^verbatim>\<open>self.data_dict[uuid][item_name]\<close> gives \<^verbatim>\<open>None\<close>.
\<close>

definition lookup_data :: "UpsList \<Rightarrow> string \<Rightarrow> string \<Rightarrow> pyval" where
  "lookup_data dd uuid item_name = (case getitem dd uuid item_name of None \<Rightarrow> PNone | Some v \<Rightarrow> v)"

text \<open>
  The \<^verbatim>\<open>if\<close> statement that follows it. Membership in the set literal compares the
  value itself: an \<^verbatim>\<open>int\<close> is equal to no \<^verbatim>\<open>str\<close>.
\<close>

definition no_data :: "pyval set" where
  "no_data = {PStr ''-1'', PNone, PStr [], PStr ''No data'', PStr ''None''}"

definition placeholder :: "string \<Rightarrow> string" where
  "placeholder item_name =
     (if item_name \<in> {''mib_ups_name'', ''mib_system_status''} then ''Unresponsive'' else ''---'')"

definition resolve :: "string \<Rightarrow> pyval \<Rightarrow> pyval" where
  "resolve item_name data_value =
     (if data_value \<in> no_data then PStr (placeholder item_name) else data_value)"

text \<open>
  The body of the loop for one \<^verbatim>\<open>(item_name, item_dict)\<close>: the entry it leaves behind and
  the events it causes.
\<close>

definition refresh_item ::
  "string set \<Rightarrow> UpsList \<Rightarrow> int \<Rightarrow> string \<Rightarrow> bool \<Rightarrow> string \<Rightarrow> gui_item \<Rightarrow> gui_item \<times> event list" where
  "refresh_item static dd w uuid skip_static item_name item_dict =
     (if skip_static \<and> item_name \<in> static then (item_dict, [])
      else
        let data_value = lookup_data dd uuid item_name;
            data_value = resolve item_name data_value;
            data_value = slice_to w (py_str data_value)
        in (item_dict\<lparr>data := data_value\<rparr>,
            [Read uuid item_name, SetText (label item_dict) data_value]))"

text \<open>
  The loop over \<^verbatim>\<open>self.gc[uuid].items()\<close>. The loop writes to the entry it is visiting
  (\<^verbatim>\<open>self.gc[uuid][item_name]\<close> is \<^verbatim>\<open>item_dict\<close>), so every entry is replaced where it stands.
\<close>

fun refresh_items ::
  "string set \<Rightarrow> UpsList \<Rightarrow> int \<Rightarrow> string \<Rightarrow> bool \<Rightarrow> (string \<times> gui_item) list
     \<Rightarrow> (string \<times> gui_item) list \<times> event list" where
  "refresh_items static dd w uuid skip_static [] = ([], [])"
| "refresh_items static dd w uuid skip_static ((item_name, item_dict) # rest) =
     (let (item', evs) = refresh_item static dd w uuid skip_static item_name item_dict;
          (rest', evs') = refresh_items static dd w uuid skip_static rest
      in ((item_name, item') # rest', evs @ evs'))"

text \<open>\<^verbatim>\<open>GuiComp.refresh_gui_data\<close>: \<^verbatim>\<open>self.gc[uuid]\<close> raises \<^verbatim>\<open>KeyError\<close> before the loop starts.\<close>

definition refresh_gui_data ::
  "string set \<Rightarrow> GuiComp \<Rightarrow> string \<Rightarrow> bool \<Rightarrow> error option \<times> GuiComp \<times> event list" where
  "refresh_gui_data static self uuid skip_static =
     (case map_of (gc self) uuid of
        None \<Rightarrow> (Some (KeyError uuid), self, [])
      | Some items \<Rightarrow>
          let (items', evs) = refresh_items static (data_dict self) (max_width self) uuid skip_static items
          in (None, self\<lparr>gc := AList.update uuid items' (gc self)\<rparr>, evs))"

text \<open>
  \<^verbatim>\<open>GuiComp.all_refresh_gui_data\<close>: the loop over \<^verbatim>\<open>self.data_dict.uuids()\<close>; an exception
  of \<^verbatim>\<open>refresh_gui_data\<close> ends it, with the registry as the earlier calls left it.
\<close>

fun all_refresh_loop ::
  "string set \<Rightarrow> GuiComp \<Rightarrow> string list \<Rightarrow> bool \<Rightarrow> error option \<times> GuiComp \<times> event list" where
  "all_refresh_loop static self [] skip_static = (None, self, [])"
| "all_refresh_loop static self (uuid # rest) skip_static =
     (case refresh_gui_data static self uuid skip_static of
        (Some e, self', evs) \<Rightarrow> (Some e, self', evs)
      | (None, self', evs) \<Rightarrow>
          (case all_refresh_loop static self' rest skip_static of
             (r, self'', evs') \<Rightarrow> (r, self'', evs @ evs')))"

definition all_refresh_gui_data ::
  "string set \<Rightarrow> GuiComp \<Rightarrow> bool \<Rightarrow> error option \<times> GuiComp \<times> event list" where
  "all_refresh_gui_data static self skip_static =
     all_refresh_loop static self (uuids (data_dict self)) skip_static"

text \<open>The entries of a device (none when it has no entry) and the entry of one field.\<close>

definition items_of :: "GuiComp \<Rightarrow> string \<Rightarrow> (string \<times> gui_item) list" where
  "items_of self uuid = (case map_of (gc self) uuid of None \<Rightarrow> [] | Some items \<Rightarrow> items)"

definition binding :: "GuiComp \<Rightarrow> string \<Rightarrow> string \<Rightarrow> gui_item option" where
  "binding self uuid name = map_of (items_of self uuid) name"

text \<open>A run of calls of \<^verbatim>\<open>add\<close>, each with its five arguments, from the left.\<close>

fun add_all ::
  "GuiComp \<Rightarrow> (string \<times> string \<times> widget \<times> widget option \<times> string option) list \<Rightarrow> GuiComp" where
  "add_all self [] = self"
| "add_all self ((uuid, name, lbl, bx, bx_name) # calls) = add_all (add self uuid name lbl bx bx_name) calls"

text \<open>
  The registry and the events after \<^verbatim>\<open>refresh_gui_data\<close> was called for each device id of
  a list, from the left.
\<close>

fun refresh_each :: "string set \<Rightarrow> GuiComp \<Rightarrow> string list \<Rightarrow> bool \<Rightarrow> GuiComp \<times> event list" where
  "refresh_each static self [] skip_static = (self, [])"
| "refresh_each static self (uuid # rest) skip_static =
     (case refresh_gui_data static self uuid skip_static of
        (r, self', evs) \<Rightarrow>
          (case refresh_each static self' rest skip_static of
             (self'', evs') \<Rightarrow> (self'', evs @ evs')))"

subsection \<open>GuiProps\<close>

text \<open>\<^verbatim>\<open>GuiProps._colors\<close>, in the order of the source.\<close>

definition colors :: "(string \<times> string) list" where
  "colors =
    [(''white'', ''#FFFFFF''),
     (''white_off'', ''#FCFCFC''),
     (''white_pp'', ''#F0E5D3''),
     (''cream'', ''#FFFDD1''),
     (''gray20'', ''#CCCCCC''),
     (''gray50'', ''#7F7F7F''),
     (''gray60'', ''#666666''),
     (''gray70'', ''#4D4D4D''),
     (''gray80'', ''#333333''),
     (''gray95'', ''#0D0D0D''),
     (''gray_dk'', ''#6A686E''),
     (''black'', ''#000000''),
     (''green'', ''#8EC3A7''),
     (''green_dk'', ''#6A907C''),
     (''teal'', ''#218C8D''),
     (''cyan'', ''#008B8B''),
     (''olive'', ''#6C9040''),
     (''red'', ''#B73743''),
     (''orange'', ''#E86850''),
     (''yellow'', ''#C9A100''),
     (''blue'', ''#587498''),
     (''purple'', ''#6264A7''),
     (''br_red'', ''#FF2D2D''),
     (''br_orange'', ''#FF6316''),
     (''br_blue'', ''#66CCFF''),
     (''br_pink'', ''#CC00FF''),
     (''br_green'', ''#99FF99''),
     (''br_yellow'', ''#FFFF66''),
     (''slate_lt'', ''#A0A0AA''),
     (''slate_md'', ''#80808d''),
     (''slate_dk'', ''#5D5D67''),
     (''slate_vdk'', ''#3A3A40'')]"

text \<open>\<^verbatim>\<open>GuiProps.color_name_to_hex\<close>\<close>

definition color_name_to_hex :: "string \<Rightarrow> error + string" where
  "color_name_to_hex v =
     (if v \<notin> set (map fst colors) then Inl (ValueError Invalid_color_name)
      else case map_of colors v of None \<Rightarrow> Inl (KeyError v) | Some h \<Rightarrow> Inr h)"

text \<open>\<^verbatim>\<open>get_color\<close>\<close>

definition get_color :: "string \<Rightarrow> error + string" where
  "get_color v = color_name_to_hex v"

text \<open>
  \<^verbatim>\<open>int(s, 16)\<close> for the two-character slices \<^verbatim>\<open>hex_to_rgba\<close> passes to it: white space
  at both ends is dropped, one sign is read, and what is left must be hexadecimal digits,
  at least one. (On longer strings \<^verbatim>\<open>int\<close> also reads a \<^verbatim>\<open>0x\<close> prefix and single
  underscores between digits; no string of two characters has either.) The white space
  \<^verbatim>\<open>int\<close> drops is the tab, the line feed, the vertical tab, the form feed, the carriage
  return and the space, and of the characters above 127 the next line (133) and the
  no-break space (160); the separators 28 to 31 are not dropped.
\<close>

definition hex_digit :: "char \<Rightarrow> nat option" where
  "hex_digit c =
     (let n = (of_char c :: nat) in
      if 48 \<le> n \<and> n \<le> 57 then Some (n - 48)
      else if 97 \<le> n \<and> n \<le> 102 then Some (n - 87)
      else if 65 \<le> n \<and> n \<le> 70 then Some (n - 55)
      else None)"

definition is_hex :: "char \<Rightarrow> bool" where
  "is_hex c = (hex_digit c \<noteq> None)"

definition is_space :: "char \<Rightarrow> bool" where
  "is_space c =
     (let n = (of_char c :: nat) in
      (9 \<le> n \<and> n \<le> 13) \<or> n = 32 \<or> n = 133 \<or> n = 160)"

definition strip :: "string \<Rightarrow> string" where
  "strip s = rev (dropWhile is_space (rev (dropWhile is_space s)))"

definition hex_value :: "string \<Rightarrow> nat" where
  "hex_value ds = foldl (\<lambda>a c. 16 * a + (case hex_digit c of Some d \<Rightarrow> d | None \<Rightarrow> 0)) 0 ds"

definition unsigned_base16 :: "string \<Rightarrow> int option" where
  "unsigned_base16 ds = (if ds \<noteq> [] \<and> list_all is_hex ds then Some (int (hex_value ds)) else None)"

definition int_base16 :: "string \<Rightarrow> int option" where
  "int_base16 s =
     (case strip s of
        [] \<Rightarrow> None
      | c # r \<Rightarrow>
          if c = CHR ''+'' then unsigned_base16 r
          else if c = CHR ''-'' then map_option uminus (unsigned_base16 r)
          else unsigned_base16 (c # r))"

text \<open>\<^verbatim>\<open>value.lstrip('#')\<close>\<close>

definition lstrip_hash :: "string \<Rightarrow> string" where
  "lstrip_hash v = dropWhile (\<lambda>c. c = CHR ''#'') v"

text \<open>
  \<^verbatim>\<open>GuiProps.hex_to_rgba\<close>. \<open>HEXRGB v\<close> says that \<^verbatim>\<open>re.fullmatch(PATTERNS['HEXRGB'], value)\<close>
  finds a match. The three channels are the exact quotients by 255; the fourth component
  is the integer 1 of the source.
\<close>

definition hex_to_rgba :: "(string \<Rightarrow> bool) \<Rightarrow> string \<Rightarrow> error + real \<times> real \<times> real \<times> real" where
  "hex_to_rgba HEXRGB v =
     (if \<not> HEXRGB v then Inl (ValueError Invalid_hex_color_format)
      else
        let v = lstrip_hash v in
        if length v \<noteq> 6 then Inl (ValueError Invalid_hex_color_format)
        else
          case (int_base16 (take 2 v), int_base16 (take 2 (drop 2 v)), int_base16 (take 2 (drop 4 v))) of
            (Some r_1, Some g_1, Some b_1) \<Rightarrow>
              Inr (real_of_int r_1 / 255, real_of_int g_1 / 255, real_of_int b_1 / 255, 1)
          | _ \<Rightarrow> Inl (ValueError Invalid_literal_for_int))"

text \<open>\<^verbatim>\<open>GuiProps.color_name_to_rgba\<close>\<close>

definition color_name_to_rgba :: "(string \<Rightarrow> bool) \<Rightarrow> string \<Rightarrow> error + real \<times> real \<times> real \<times> real" where
  "color_name_to_rgba HEXRGB v =
     (if v \<notin> set (map fst colors) then Inl (ValueError Invalid_color_name)
      else case map_of colors v of None \<Rightarrow> Inl (KeyError v) | Some h \<Rightarrow> hex_to_rgba HEXRGB h)"

text \<open>
  \<^verbatim>\<open>fmt % args\<close> for a format whose only conversions are \<^verbatim>\<open>%s\<close> (as in every format of
  the source) and whose arguments are strings: \<open>None\<close> is the \<^verbatim>\<open>TypeError\<close> of too few
  or too many arguments.
\<close>

fun percent_format :: "string \<Rightarrow> string list \<Rightarrow> string option" where
  "percent_format [] args = (if args = [] then Some [] else None)"
| "percent_format [c] args = (if args = [] then Some [c] else None)"
| "percent_format (c # d # fmt) args =
     (if c = CHR ''%'' \<and> d = CHR ''s'' then
        (case args of
           [] \<Rightarrow> None
         | a # args' \<Rightarrow> map_option (\<lambda>t. a @ t) (percent_format fmt args'))
      else map_option (\<lambda>t. c # t) (percent_format (d # fmt) args))"

text \<open>
  The default rules of \<^verbatim>\<open>GuiProps.set_style\<close>, in the order they are appended: the format
  and the keys of \<^verbatim>\<open>cls._colors\<close> whose values are its arguments.
\<close>

definition default_rules :: "(string \<times> string list) list" where
  "default_rules =
    [(''grid { background-image: image(%s); }'', [''gray80'']),
     (''#light_grid { background-image: image(%s); }'', [''gray20'']),
     (''#dark_grid { background-image: image(%s); }'', [''gray70'']),
     (''#dark_box { background-image: image(%s); }'', [''slate_dk'']),
     (''#med_box { background-image: image(%s); }'', [''slate_md'']),
     (''#light_box { background-image: image(%s); }'', [''slate_lt'']),
     (''#head_box { background-image: image(%s); }'', [''blue'']),
     (''#warn_box { background-image: image(%s); }'', [''red'']),
     (''#button_box { background-image: image(%s); }'', [''slate_dk'']),
     (''#out_load_box { background-image: image(%s); }'', [''slate_md'']),
     (''#out_load_label { color: %s; }'', [''white_off'']),
     (''#bat_cap_box { background-image: image(%s); }'', [''slate_md'']),
     (''#bat_cap_label { color: %s; }'', [''white_off'']),
     (''#sys_stat_box { background-image: image(%s); }'', [''slate_md'']),
     (''#sys_stat_label { color: %s; }'', [''white_off'']),
     (''#bat_stat_box { background-image: image(%s); }'', [''slate_md'']),
     (''#bat_stat_label { color: %s; }'', [''white_off'']),
     (''#message_box { background-image: image(%s); }'', [''gray50'']),
     (''#message_label { color: %s; }'', [''white_off'']),
     (''#warn_label { color: %s; }'', [''white_pp'']),
     (''#white_label { color: %s; }'', [''white_off'']),
     (''#black_label { color: %s; }'', [''gray95'']),
     (''#ppm_combo { background-image: image(%s); color: %s; }'', [''green'', ''black'']),
     (''button { background-image: image(%s); color: %s; }'', [''slate_lt'', ''black'']),
     (''entry { background-image: image(%s); color: %s; }'', [''green'', ''gray95'']),
     (''entry:selected { background-image: image(%s); color: %s; }'', [''yellow'', ''white''])]"

text \<open>\<^verbatim>\<open>cls._colors[key]\<close> for every key of one rule, from the left.\<close>

fun colors_getitems :: "string list \<Rightarrow> error + string list" where
  "colors_getitems [] = Inr []"
| "colors_getitems (k # ks) =
     (case map_of colors k of
        None \<Rightarrow> Inl (KeyError k)
      | Some h \<Rightarrow> (case colors_getitems ks of Inl e \<Rightarrow> Inl e | Inr hs \<Rightarrow> Inr (h # hs)))"

fun build_rules :: "(string \<times> string list) list \<Rightarrow> error + string list" where
  "build_rules [] = Inr []"
| "build_rules ((fmt, keys) # rest) =
     (case colors_getitems keys of
        Inl e \<Rightarrow> Inl e
      | Inr hs \<Rightarrow>
          (case percent_format fmt hs of
             None \<Rightarrow> Inl TypeError
           | Some r \<Rightarrow> (case build_rules rest of Inl e \<Rightarrow> Inl e | Inr rs \<Rightarrow> Inr (r # rs))))"

text \<open>
  \<^verbatim>\<open>GuiProps.set_style\<close>: the \<^verbatim>\<open>css_list\<close> it builds; each item of the list is then loaded
  into a provider of its own and added to the screen, in this order.
\<close>

definition set_style :: "string option \<Rightarrow> error + string list" where
  "set_style css_str = (case css_str of None \<Rightarrow> build_rules default_rules | Some s \<Rightarrow> Inr [s])"

subsection \<open>The words of the specification\<close>

text \<open>
  For \<^verbatim>\<open>hex_to_rgba\<close>: the input after stripping an optional leading \<^verbatim>\<open>#\<close>, a string of
  exactly six hexadecimal characters, and a channel (two hexadecimal digits) divided
  by 255.
\<close>

definition strip_one_hash :: "string \<Rightarrow> string" where
  "strip_one_hash v = (case v of [] \<Rightarrow> [] | c # r \<Rightarrow> if c = CHR ''#'' then r else v)"

definition six_hex :: "string \<Rightarrow> bool" where
  "six_hex v = (length v = 6 \<and> list_all is_hex v)"

definition channel :: "string \<Rightarrow> nat \<Rightarrow> real" where
  "channel v i = real (hex_value (take 2 (drop i v))) / 255"

text \<open>
  Modelled from the spec: \<^verbatim>\<open>PATTERNS['HEXRGB']\<close> of \<^verbatim>\<open>UPSmodules/env.py\<close> is missing from
  the sources. The data model of the specification has a colour code "validated to match
  \<^verbatim>\<open>#RRGGBB\<close> exactly (case-insensitive hex digits, no alpha)": the pattern matches a
  \<^verbatim>\<open>#\<close> followed by exactly six hexadecimal characters, and nothing else.
\<close>

definition HEXRGB_rrggbb :: "string \<Rightarrow> bool" where
  "HEXRGB_rrggbb v = (case v of [] \<Rightarrow> False | c # r \<Rightarrow> c = CHR ''#'' \<and> six_hex r)"

text \<open>A case variant of a name: another string with the same \<^verbatim>\<open>lower()\<close> (ASCII letters).\<close>

definition ascii_lower :: "char \<Rightarrow> char" where
  "ascii_lower c =
     (case map_of (zip ''ABCDEFGHIJKLMNOPQRSTUVWXYZ'' ''abcdefghijklmnopqrstuvwxyz'') c of
        None \<Rightarrow> c
      | Some l \<Rightarrow> l)"

definition case_variant :: "string \<Rightarrow> string \<Rightarrow> bool" where
  "case_variant v' v = (v' \<noteq> v \<and> map ascii_lower v' = map ascii_lower v)"

text \<open>
  For \<^verbatim>\<open>buildDefault\<close>: the table of regions and colour names as the specification
  enumerates it, and the rule of one region. \<^verbatim>\<open>grid\<close>, \<^verbatim>\<open>button\<close> and \<^verbatim>\<open>entry\<close> are widget
  types, selected by their name; every other region is the name of a widget, selected
  by \<^verbatim>\<open>#name\<close>.
\<close>

datatype style = Background string | Text_color string | Background_text string string

definition style_table :: "(string \<times> style) list" where
  "style_table =
    [(''grid'', Background ''gray80''),
     (''light_grid'', Background ''gray20''),
     (''dark_grid'', Background ''gray70''),
     (''dark_box'', Background ''slate_dk''),
     (''med_box'', Background ''slate_md''),
     (''light_box'', Background ''slate_lt''),
     (''head_box'', Background ''blue''),
     (''warn_box'', Background ''red''),
     (''button_box'', Background ''slate_dk''),
     (''out_load_box'', Background ''slate_md''),
     (''out_load_label'', Text_color ''white_off''),
     (''bat_cap_box'', Background ''slate_md''),
     (''bat_cap_label'', Text_color ''white_off''),
     (''sys_stat_box'', Background ''slate_md''),
     (''sys_stat_label'', Text_color ''white_off''),
     (''bat_stat_box'', Background ''slate_md''),
     (''bat_stat_label'', Text_color ''white_off''),
     (''message_box'', Background ''gray50''),
     (''message_label'', Text_color ''white_off''),
     (''warn_label'', Text_color ''white_pp''),
     (''white_label'', Text_color ''white_off''),
     (''black_label'', Text_color ''gray95''),
     (''ppm_combo'', Background_text ''green'' ''black''),
     (''button'', Background_text ''slate_lt'' ''black''),
     (''entry'', Background_text ''green'' ''gray95'')]"

definition selector :: "string \<Rightarrow> string" where
  "selector region = (if region \<in> {''grid'', ''button'', ''entry''} then region else CHR ''#'' # region)"

fun style_rule :: "string \<times> style \<Rightarrow> error + string" where
  "style_rule (region, Background c) =
     (case color_name_to_hex c of
        Inl e \<Rightarrow> Inl e
      | Inr h \<Rightarrow> Inr (selector region @ '' { background-image: image('' @ h @ ''); }''))"
| "style_rule (region, Text_color c) =
     (case color_name_to_hex c of
        Inl e \<Rightarrow> Inl e
      | Inr h \<Rightarrow> Inr (selector region @ '' { color: '' @ h @ ''; }''))"
| "style_rule (region, Background_text c c') =
     (case color_name_to_hex c of
        Inl e \<Rightarrow> Inl e
      | Inr h \<Rightarrow>
          (case color_name_to_hex c' of
             Inl e \<Rightarrow> Inl e
           | Inr h' \<Rightarrow>
               Inr (selector region @ '' { background-image: image('' @ h @ ''); color: '' @ h' @ ''; }'')))"

fun style_rules :: "(string \<times> style) list \<Rightarrow> error + string list" where
  "style_rules [] = Inr []"
| "style_rules (r # rest) =
     (case style_rule r of
        Inl e \<Rightarrow> Inl e
      | Inr x \<Rightarrow> (case style_rules rest of Inl e \<Rightarrow> Inl e | Inr xs \<Rightarrow> Inr (x # xs)))"

section \<open>Theorems\<close>

text \<open>
  C3: \<^verbatim>\<open>refresh_gui_data\<close> for a device id that has no entry in the registry raises
  \<^verbatim>\<open>KeyError\<close> (the spec's UnknownDeviceError); the registry it leaves is the registry it
  was given, so every binding, label and cached value is as before, and it causes no
  read and no \<^verbatim>\<open>set_text\<close>.
\<close>

theorem refresh_unknown_device:
  assumes "map_of (gc self) uuid = None"
  shows "refresh_gui_data static self uuid skip_static = (Some (KeyError uuid), self, [])"
  using assms by (simp add: refresh_gui_data_def)

text \<open>
  The theorem at a registry that holds the device \<^verbatim>\<open>ups1\<close> only, refreshed for \<^verbatim>\<open>ups2\<close>.
\<close>

theorem refresh_unknown_device_witness:
  "refresh_gui_data {}
     (add (GuiComp_init \<lparr>uuids = [''ups1'', ''ups2''], getitem = (\<lambda>u n. Some (PStr ''87''))\<rparr> 20)
        ''ups1'' ''mib_battery_capacity'' 11 None None) ''ups2'' False =
   (Some (KeyError ''ups2''),
    add (GuiComp_init \<lparr>uuids = [''ups1'', ''ups2''], getitem = (\<lambda>u n. Some (PStr ''87''))\<rparr> 20)
        ''ups1'' ''mib_battery_capacity'' 11 None None, [])"
proof -
  have "map_of (gc (add (GuiComp_init \<lparr>uuids = [''ups1'', ''ups2''], getitem = (\<lambda>u n. Some (PStr ''87''))\<rparr> 20)
        ''ups1'' ''mib_battery_capacity'' 11 None None)) ''ups2'' = None"
    by (simp add: add_def GuiComp_init_def)
  then show ?thesis by (rule refresh_unknown_device)
qed

subsection \<open>The refresh of one device\<close>

lemma slice_to_nonneg: "0 \<le> w \<Longrightarrow> slice_to w s = take (nat w) s"
  by (simp add: slice_to_def)

lemma refresh_items_eq:
  "refresh_items static dd w uuid skip xs =
     (map (\<lambda>(n, d). (n, fst (refresh_item static dd w uuid skip n d))) xs,
      concat (map (\<lambda>(n, d). snd (refresh_item static dd w uuid skip n d)) xs))"
  by (induction xs) (auto simp: split_beta)

lemma map_of_refreshed:
  "map_of (map (\<lambda>(n, d). (n, f n d)) xs) k = map_option (f k) (map_of xs k)"
  by (induction xs) auto

lemma items_of_refresh:
  "map_of (gc self) uuid = Some items \<Longrightarrow>
   items_of (fst (snd (refresh_gui_data static self uuid skip))) u =
     (if u = uuid then fst (refresh_items static (data_dict self) (max_width self) uuid skip items)
      else items_of self u)"
  by (simp add: refresh_gui_data_def items_of_def split_beta update_conv')

lemma binding_refresh:
  assumes "map_of (gc self) uuid = Some items"
  shows "binding (fst (snd (refresh_gui_data static self uuid skip))) uuid name =
     map_option (\<lambda>d. fst (refresh_item static (data_dict self) (max_width self) uuid skip name d))
       (binding self uuid name)"
  using assms
  by (simp add: binding_def items_of_refresh refresh_items_eq map_of_refreshed) (simp add: items_of_def)

lemma events_refresh:
  assumes "map_of (gc self) uuid = Some items"
  shows "snd (snd (refresh_gui_data static self uuid skip)) =
     concat (map (\<lambda>(n, d). snd (refresh_item static (data_dict self) (max_width self) uuid skip n d)) items)"
  using assms by (simp add: refresh_gui_data_def split_beta refresh_items_eq)

lemma outcome_refresh:
  "fst (refresh_gui_data static self uuid skip) = (case map_of (gc self) uuid of None \<Rightarrow> Some (KeyError uuid) | Some _ \<Rightarrow> None)"
  by (simp add: refresh_gui_data_def split_beta split: option.splits)

lemma binding_registered:
  "binding self uuid name = Some b \<Longrightarrow> \<exists>items. map_of (gc self) uuid = Some items \<and> map_of items name = Some b"
  by (auto simp: binding_def items_of_def split: option.splits)

lemma event_of_binding:
  assumes "map_of items name = Some b"
  shows "set (snd (refresh_item static dd w uuid skip name b))
           \<subseteq> set (concat (map (\<lambda>(n, d). snd (refresh_item static dd w uuid skip n d)) items))"
  using map_of_SomeD [OF assms] by force

lemma refresh_item_processed:
  "\<not> (skip \<and> name \<in> static) \<Longrightarrow>
   refresh_item static dd w uuid skip name b =
     (b\<lparr>data := slice_to w (py_str (resolve name (lookup_data dd uuid name)))\<rparr>,
      [Read uuid name, SetText (label b) (slice_to w (py_str (resolve name (lookup_data dd uuid name))))])"
  by (simp add: refresh_item_def Let_def)

lemma refresh_item_skipped:
  "name \<in> static \<Longrightarrow> refresh_item static dd w uuid True name b = (b, [])"
  by (simp add: refresh_item_def)

lemma refresh_processed:
  assumes "binding self uuid name = Some b" and "\<not> (skip \<and> name \<in> static)"
  shows "fst (refresh_gui_data static self uuid skip) = None"
    and "binding (fst (snd (refresh_gui_data static self uuid skip))) uuid name =
           Some (b\<lparr>data := slice_to (max_width self)
                    (py_str (resolve name (lookup_data (data_dict self) uuid name)))\<rparr>)"
    and "SetText (label b)
           (slice_to (max_width self) (py_str (resolve name (lookup_data (data_dict self) uuid name))))
         \<in> set (snd (snd (refresh_gui_data static self uuid skip)))"
proof -
  from assms(1) obtain items where it: "map_of (gc self) uuid = Some items" "map_of items name = Some b"
    using binding_registered by blast
  note ri = refresh_item_processed [OF assms(2), of "data_dict self" "max_width self" uuid b]
  show "fst (refresh_gui_data static self uuid skip) = None"
    using it by (simp add: outcome_refresh)
  show "binding (fst (snd (refresh_gui_data static self uuid skip))) uuid name =
           Some (b\<lparr>data := slice_to (max_width self)
                    (py_str (resolve name (lookup_data (data_dict self) uuid name)))\<rparr>)"
    using assms(1) by (simp add: binding_refresh [OF it(1)] ri)
  show "SetText (label b)
           (slice_to (max_width self) (py_str (resolve name (lookup_data (data_dict self) uuid name))))
         \<in> set (snd (snd (refresh_gui_data static self uuid skip)))"
    using event_of_binding [OF it(2), of static "data_dict self" "max_width self" uuid skip]
    by (simp add: events_refresh [OF it(1)] ri)
qed

text \<open>
  C1: for a registered field that is not skipped as static, when the candidate value is
  absent (\<^verbatim>\<open>None\<close>) or one of \<^verbatim>\<open>'-1'\<close>, \<^verbatim>\<open>''\<close>, \<^verbatim>\<open>'No data'\<close>, \<^verbatim>\<open>'None'\<close>, the call
  succeeds, the cached \<open>data\<close> of the entry becomes the placeholder cut by \<^verbatim>\<open>[:max_width]\<close>,
  the label gets a \<^verbatim>\<open>set_text\<close> with the same text, and the placeholder is
  \<^verbatim>\<open>'Unresponsive'\<close> for \<^verbatim>\<open>mib_ups_name\<close> and \<^verbatim>\<open>mib_system_status\<close> and \<^verbatim>\<open>'---'\<close> for every
  other field.
\<close>

theorem refresh_placeholder:
  assumes "binding self uuid name = Some b"
    and "\<not> (skip_static \<and> name \<in> static)"
    and "lookup_data (data_dict self) uuid name \<in> no_data"
  shows "fst (refresh_gui_data static self uuid skip_static) = None \<and>
         binding (fst (snd (refresh_gui_data static self uuid skip_static))) uuid name =
           Some (b\<lparr>data := slice_to (max_width self) (placeholder name)\<rparr>) \<and>
         SetText (label b) (slice_to (max_width self) (placeholder name))
           \<in> set (snd (snd (refresh_gui_data static self uuid skip_static))) \<and>
         placeholder name = (if name = ''mib_ups_name'' \<or> name = ''mib_system_status''
                             then ''Unresponsive'' else ''---'')"
  using refresh_processed [OF assms(1,2)] assms(3)
  by (simp add: resolve_def placeholder_def)

text \<open>
  The theorem at a registry with one status field whose data value is the string
  \<^verbatim>\<open>'None'\<close>.
\<close>

theorem refresh_placeholder_witness:
  "binding (fst (snd (refresh_gui_data {}
      (add (GuiComp_init \<lparr>uuids = [''ups1''], getitem = (\<lambda>u n. Some (PStr ''None''))\<rparr> 20)
         ''ups1'' ''mib_system_status'' 11 None None) ''ups1'' False))) ''ups1'' ''mib_system_status''
     = Some \<lparr>label = 11, box = None, box_name = None, data = ''Unresponsive''\<rparr>"
proof -
  let ?S = "add (GuiComp_init \<lparr>uuids = [''ups1''], getitem = (\<lambda>u n. Some (PStr ''None''))\<rparr> 20)
         ''ups1'' ''mib_system_status'' 11 None None"
  have 1: "binding ?S ''ups1'' ''mib_system_status''
             = Some \<lparr>label = 11, box = None, box_name = None, data = ''---''\<rparr>"
    by (simp add: binding_def items_of_def add_def GuiComp_init_def)
  have 2: "\<not> (False \<and> ''mib_system_status'' \<in> ({} :: string set))" by simp
  have 3: "lookup_data (data_dict ?S) ''ups1'' ''mib_system_status'' \<in> no_data"
    by (simp add: lookup_data_def no_data_def add_def GuiComp_init_def)
  have 4: "max_width ?S = 20" by (simp add: add_def GuiComp_init_def)
  show ?thesis
    using refresh_placeholder [OF 1 2 3] by (simp add: 4 slice_to_def placeholder_def)
qed

text \<open>
  C2: with a maximum width that is not negative, the text rendered for any registered
  field that is processed is the first \<open>max_width\<close> characters of the textual
  representation of the resolved value: it is set on the label and cached, it is never
  longer than \<open>max_width\<close>, it has exactly \<open>max_width\<close> characters when the text is
  longer, and it is the whole text otherwise. The one \<open>max_width\<close> of the registry is used
  for every device and field.
\<close>

theorem refresh_truncates:
  assumes "0 \<le> max_width self"
    and "binding self uuid name = Some b"
    and "\<not> (skip_static \<and> name \<in> static)"
  shows "let text = py_str (resolve name (lookup_data (data_dict self) uuid name));
             rendered = take (nat (max_width self)) text
         in binding (fst (snd (refresh_gui_data static self uuid skip_static))) uuid name =
              Some (b\<lparr>data := rendered\<rparr>) \<and>
            SetText (label b) rendered \<in> set (snd (snd (refresh_gui_data static self uuid skip_static))) \<and>
            int (length rendered) \<le> max_width self \<and>
            (if max_width self < int (length text) then int (length rendered) = max_width self
             else rendered = text)"
  using refresh_processed [OF assms(2,3)] assms(1)
  by (auto simp: Let_def slice_to_nonneg)

text \<open>The theorem at width 5 and a value of 14 characters.\<close>

theorem refresh_truncates_witness:
  "binding (fst (snd (refresh_gui_data {}
      (add (GuiComp_init \<lparr>uuids = [''ups1''], getitem = (\<lambda>u n. Some (PStr ''Smart-UPS 1500''))\<rparr> 5)
         ''ups1'' ''mib_ups_model'' 11 None None) ''ups1'' False))) ''ups1'' ''mib_ups_model''
     = Some \<lparr>label = 11, box = None, box_name = None, data = ''Smart''\<rparr>"
proof -
  let ?S = "add (GuiComp_init \<lparr>uuids = [''ups1''], getitem = (\<lambda>u n. Some (PStr ''Smart-UPS 1500''))\<rparr> 5)
         ''ups1'' ''mib_ups_model'' 11 None None"
  have 0: "0 \<le> max_width ?S" by (simp add: add_def GuiComp_init_def)
  have 1: "binding ?S ''ups1'' ''mib_ups_model''
             = Some \<lparr>label = 11, box = None, box_name = None, data = ''---''\<rparr>"
    by (simp add: binding_def items_of_def add_def GuiComp_init_def)
  have 2: "\<not> (False \<and> ''mib_ups_model'' \<in> ({} :: string set))" by simp
  have 4: "max_width ?S = 5" "data_dict ?S = \<lparr>uuids = [''ups1''], getitem = (\<lambda>u n. Some (PStr ''Smart-UPS 1500''))\<rparr>"
    by (simp_all add: add_def GuiComp_init_def)
  show ?thesis
    using refresh_truncates [OF 0 1 2]
    by (simp add: 4 Let_def lookup_data_def resolve_def no_data_def)
qed

text \<open>
  C10: the placeholder is decided on the value itself, before \<^verbatim>\<open>str()\<close>: a candidate that
  is none of \<^verbatim>\<open>None\<close>, \<^verbatim>\<open>'-1'\<close>, \<^verbatim>\<open>''\<close>, \<^verbatim>\<open>'No data'\<close>, \<^verbatim>\<open>'None'\<close> is rendered as its textual
  representation cut by \<^verbatim>\<open>[:max_width]\<close> (its first \<open>max_width\<close> characters when the width
  is not negative). The integer \<open>-1\<close> is such a candidate although its text is \<^verbatim>\<open>'-1'\<close>.
\<close>

theorem refresh_renders_value:
  assumes "binding self uuid name = Some b"
    and "\<not> (skip_static \<and> name \<in> static)"
    and "lookup_data (data_dict self) uuid name = v"
    and "v \<notin> no_data"
  shows "binding (fst (snd (refresh_gui_data static self uuid skip_static))) uuid name =
           Some (b\<lparr>data := slice_to (max_width self) (py_str v)\<rparr>) \<and>
         SetText (label b) (slice_to (max_width self) (py_str v))
           \<in> set (snd (snd (refresh_gui_data static self uuid skip_static))) \<and>
         (0 \<le> max_width self \<longrightarrow>
            slice_to (max_width self) (py_str v) = take (nat (max_width self)) (py_str v)) \<and>
         (v \<noteq> PNone \<and> v \<noteq> PStr ''-1'' \<and> v \<noteq> PStr [] \<and> v \<noteq> PStr ''No data'' \<and> v \<noteq> PStr ''None'') \<and>
         PInt (- 1) \<notin> no_data \<and> py_str (PInt (- 1)) = ''-1'' \<and> PStr ''-1'' \<in> no_data"
  using refresh_processed [OF assms(1,2)] assms(3,4)
  by (auto simp: resolve_def slice_to_nonneg no_data_def str_int_def str_nat.simps digit_char_def)

text \<open>The theorem at the integer \<open>-1\<close>: the label shows \<^verbatim>\<open>-1\<close>, not a placeholder.\<close>

theorem refresh_renders_value_witness:
  "binding (fst (snd (refresh_gui_data {}
      (add (GuiComp_init \<lparr>uuids = [''ups1''], getitem = (\<lambda>u n. Some (PInt (- 1)))\<rparr> 20)
         ''ups1'' ''mib_battery_temperature'' 11 None None) ''ups1'' False))) ''ups1'' ''mib_battery_temperature''
     = Some \<lparr>label = 11, box = None, box_name = None, data = ''-1''\<rparr>"
proof -
  let ?S = "add (GuiComp_init \<lparr>uuids = [''ups1''], getitem = (\<lambda>u n. Some (PInt (- 1)))\<rparr> 20)
         ''ups1'' ''mib_battery_temperature'' 11 None None"
  have 1: "binding ?S ''ups1'' ''mib_battery_temperature''
             = Some \<lparr>label = 11, box = None, box_name = None, data = ''---''\<rparr>"
    by (simp add: binding_def items_of_def add_def GuiComp_init_def)
  have 2: "\<not> (False \<and> ''mib_battery_temperature'' \<in> ({} :: string set))" by simp
  have 3: "lookup_data (data_dict ?S) ''ups1'' ''mib_battery_temperature'' = PInt (- 1)"
    by (simp add: lookup_data_def add_def GuiComp_init_def)
  have 4: "PInt (- 1) \<notin> no_data" by (simp add: no_data_def)
  have 5: "max_width ?S = 20" by (simp add: add_def GuiComp_init_def)
  show ?thesis
    using refresh_renders_value [OF 1 2 3 4]
    by (simp add: 5 slice_to_def str_int_def str_nat.simps digit_char_def)
qed

lemma events_skip_static:
  "concat (map (\<lambda>(n, d). snd (refresh_item static dd w uuid True n d)) items) =
   concat (map (\<lambda>(n, d). [Read uuid n,
                           SetText (label d) (slice_to w (py_str (resolve n (lookup_data dd uuid n))))])
             (filter (\<lambda>(n, d). n \<notin> static) items))"
  by (induction items) (auto simp: refresh_item_def Let_def)

text \<open>
  C5: with \<^verbatim>\<open>skip_static=True\<close> a static field of a registered device is left as it was:
  its entry (label, box, box name and cached \<open>data\<close>) is the same after the call, the
  data source is not read for it, and no \<^verbatim>\<open>set_text\<close> is made for it: the trace of the call
  is the read and the \<^verbatim>\<open>set_text\<close> of each field of the device that is not static, in the
  order of the registry, and nothing else.
\<close>

theorem refresh_skip_static:
  assumes "name \<in> static" and "binding self uuid name = Some b"
  shows "fst (refresh_gui_data static self uuid True) = None \<and>
         binding (fst (snd (refresh_gui_data static self uuid True))) uuid name = Some b \<and>
         Read uuid name \<notin> set (snd (snd (refresh_gui_data static self uuid True))) \<and>
         snd (snd (refresh_gui_data static self uuid True)) =
           concat (map (\<lambda>(n, d). [Read uuid n,
                                   SetText (label d)
                                     (slice_to (max_width self)
                                        (py_str (resolve n (lookup_data (data_dict self) uuid n))))])
                     (filter (\<lambda>(n, d). n \<notin> static) (items_of self uuid)))"
proof -
  from assms(2) obtain items where it: "map_of (gc self) uuid = Some items" "map_of items name = Some b"
    using binding_registered by blast
  have io: "items_of self uuid = items" using it(1) by (simp add: items_of_def)
  have 1: "fst (refresh_gui_data static self uuid True) = None"
    using it by (simp add: outcome_refresh)
  have 2: "binding (fst (snd (refresh_gui_data static self uuid True))) uuid name = Some b"
    using assms by (simp add: binding_refresh [OF it(1)] refresh_item_skipped)
  have 4: "snd (snd (refresh_gui_data static self uuid True)) =
           concat (map (\<lambda>(n, d). [Read uuid n,
                                   SetText (label d)
                                     (slice_to (max_width self)
                                        (py_str (resolve n (lookup_data (data_dict self) uuid n))))])
                     (filter (\<lambda>(n, d). n \<notin> static) (items_of self uuid)))"
    by (simp only: events_refresh [OF it(1)] events_skip_static io)
  have 3: "Read uuid name \<notin> set (snd (snd (refresh_gui_data static self uuid True)))"
    unfolding 4 using assms(1) by auto
  from 1 2 3 4 show ?thesis by blast
qed

text \<open>
  The theorem at a device with the static field \<^verbatim>\<open>mib_ups_name\<close> and one other field:
  the only events are the read and the \<^verbatim>\<open>set_text\<close> of the other field.
\<close>

theorem refresh_skip_static_witness:
  "binding (fst (snd (refresh_gui_data {''mib_ups_name''}
      (add (add (GuiComp_init \<lparr>uuids = [''ups1''], getitem = (\<lambda>u n. Some (PStr ''87''))\<rparr> 20)
         ''ups1'' ''mib_ups_name'' 11 None None) ''ups1'' ''mib_battery_capacity'' 12 None None)
       ''ups1'' True))) ''ups1'' ''mib_ups_name''
     = Some \<lparr>label = 11, box = None, box_name = None, data = ''---''\<rparr> \<and>
   snd (snd (refresh_gui_data {''mib_ups_name''}
      (add (add (GuiComp_init \<lparr>uuids = [''ups1''], getitem = (\<lambda>u n. Some (PStr ''87''))\<rparr> 20)
         ''ups1'' ''mib_ups_name'' 11 None None) ''ups1'' ''mib_battery_capacity'' 12 None None)
       ''ups1'' True)) = [Read ''ups1'' ''mib_battery_capacity'', SetText 12 ''87'']"
proof -
  let ?S = "add (add (GuiComp_init \<lparr>uuids = [''ups1''], getitem = (\<lambda>u n. Some (PStr ''87''))\<rparr> 20)
         ''ups1'' ''mib_ups_name'' 11 None None) ''ups1'' ''mib_battery_capacity'' 12 None None"
  have 1: "''mib_ups_name'' \<in> {''mib_ups_name''}" by simp
  have 2: "binding ?S ''ups1'' ''mib_ups_name''
             = Some \<lparr>label = 11, box = None, box_name = None, data = ''---''\<rparr>"
    by (simp add: binding_def items_of_def add_def GuiComp_init_def)
  have 3: "snd (snd (refresh_gui_data {''mib_ups_name''} ?S ''ups1'' True))
             = [Read ''ups1'' ''mib_battery_capacity'', SetText 12 ''87'']"
    by (simp add: refresh_gui_data_def add_def GuiComp_init_def refresh_item_def Let_def
          lookup_data_def resolve_def no_data_def slice_to_def)
  show ?thesis
    using refresh_skip_static [OF 1 2] 3 by simp
qed

subsection \<open>The refresh of all devices\<close>

lemma registered_refresh:
  "(map_of (gc (fst (snd (refresh_gui_data static self uuid skip)))) u = None) = (map_of (gc self) u = None)"
  by (auto simp: refresh_gui_data_def split_beta update_conv' split: option.splits)

lemma all_refresh_loop_step:
  assumes "refresh_gui_data static self u skip = (None, self', evs)" and "P u"
    and "all_refresh_loop static self' us skip =
       (case dropWhile P us of
          [] \<Rightarrow> (None, refresh_each static self' us skip)
        | v # _ \<Rightarrow> (Some (KeyError v), refresh_each static self' (takeWhile P us) skip))"
  shows "all_refresh_loop static self (u # us) skip =
       (case dropWhile P (u # us) of
          [] \<Rightarrow> (None, refresh_each static self (u # us) skip)
        | v # _ \<Rightarrow> (Some (KeyError v), refresh_each static self (takeWhile P (u # us)) skip))"
  using assms by (cases "dropWhile P us") (simp_all del: dropWhile_eq_Nil_conv split: prod.splits)

lemma all_refresh_loop_eq:
  "all_refresh_loop static self us skip =
     (case dropWhile (\<lambda>u. map_of (gc self) u \<noteq> None) us of
        [] \<Rightarrow> (None, refresh_each static self us skip)
      | u # _ \<Rightarrow> (Some (KeyError u),
                  refresh_each static self (takeWhile (\<lambda>u. map_of (gc self) u \<noteq> None) us) skip))"
proof (induction us arbitrary: self)
  case Nil
  then show ?case by simp
next
  case (Cons u us)
  show ?case
  proof (cases "map_of (gc self) u")
    case None
    then show ?thesis by (simp add: refresh_gui_data_def)
  next
    case (Some items)
    obtain self' evs where r: "refresh_gui_data static self u skip = (None, self', evs)"
      using Some by (simp add: refresh_gui_data_def split_beta)
    have reg: "(\<lambda>u. map_of (gc self') u \<noteq> None) = (\<lambda>u. map_of (gc self) u \<noteq> None)"
      using registered_refresh [of static self u skip] r by (simp add: fun_eq_iff)
    have u: "(\<lambda>u. map_of (gc self) u \<noteq> None) u" using Some by simp
    show ?thesis
      using Cons.IH [of self'] unfolding reg by (rule all_refresh_loop_step [where P = "\<lambda>u. map_of (gc self) u \<noteq> None", OF r u])
  qed
qed

text \<open>
  C4 (as amended): \<^verbatim>\<open>all_refresh_gui_data\<close> calls \<^verbatim>\<open>refresh_gui_data\<close> for the device ids
  the data source enumerates, in that order, not for the keys of the registry. When every
  enumerated id has an entry in the registry it ends without an exception, and the
  registry and the trace are those of the successive calls. Otherwise it ends with
  \<^verbatim>\<open>KeyError\<close> at the first enumerated id that has no entry, and the registry and the trace
  are those of the calls for the ids before it.
\<close>

theorem all_refresh_every_device:
  "all_refresh_gui_data static self skip_static =
     (case dropWhile (\<lambda>u. map_of (gc self) u \<noteq> None) (uuids (data_dict self)) of
        [] \<Rightarrow> (None, refresh_each static self (uuids (data_dict self)) skip_static)
      | u # _ \<Rightarrow> (Some (KeyError u),
                  refresh_each static self
                    (takeWhile (\<lambda>u. map_of (gc self) u \<noteq> None) (uuids (data_dict self))) skip_static))"
  by (simp add: all_refresh_gui_data_def all_refresh_loop_eq)

text \<open>
  The theorem at a data source that enumerates \<^verbatim>\<open>ups1\<close> and \<^verbatim>\<open>ups2\<close> and a registry that
  holds \<^verbatim>\<open>ups1\<close> only: \<^verbatim>\<open>ups1\<close> is refreshed, then \<^verbatim>\<open>KeyError\<close> is raised for \<^verbatim>\<open>ups2\<close>.
\<close>

theorem all_refresh_every_device_witness:
  "all_refresh_gui_data {}
     (add (GuiComp_init \<lparr>uuids = [''ups1'', ''ups2''], getitem = (\<lambda>u n. Some (PStr ''87''))\<rparr> 20)
        ''ups1'' ''mib_battery_capacity'' 11 None None) False =
   (Some (KeyError ''ups2''),
    \<lparr>gc = [(''ups1'', [(''mib_battery_capacity'',
              \<lparr>label = 11, box = None, box_name = None, data = ''87''\<rparr>)])],
       data_dict = \<lparr>uuids = [''ups1'', ''ups2''], getitem = (\<lambda>u n. Some (PStr ''87''))\<rparr>,
       max_width = 20\<rparr>,
    [Read ''ups1'' ''mib_battery_capacity'', SetText 11 ''87''])"
  using all_refresh_every_device [of "{}"
     "add (GuiComp_init \<lparr>uuids = [''ups1'', ''ups2''], getitem = (\<lambda>u n. Some (PStr ''87''))\<rparr> 20)
        ''ups1'' ''mib_battery_capacity'' 11 None None" False]
  by (simp add: add_def GuiComp_init_def refresh_gui_data_def refresh_item_def Let_def
        lookup_data_def resolve_def no_data_def slice_to_def)

text \<open>
  C4 as stated fails: for a device the data source enumerates and the registry does not
  hold, the pass is not a no-op that completes, it raises \<^verbatim>\<open>KeyError\<close>.
\<close>

theorem all_refresh_unregistered_counterexample:
  "fst (all_refresh_gui_data {}
     (GuiComp_init \<lparr>uuids = [''ups2''], getitem = (\<lambda>u n. Some (PStr ''87''))\<rparr> 20) False)
   = Some (KeyError ''ups2'')"
  by (simp add: all_refresh_gui_data_def GuiComp_init_def refresh_gui_data_def)

subsection \<open>Registration\<close>

lemma items_of_add:
  "items_of (add self uuid name lbl bx bxn) u =
     (if u = uuid
      then AList.update name \<lparr>label = lbl, box = bx, box_name = bxn, data = ''---''\<rparr> (items_of self uuid)
      else items_of self u)"
  by (simp add: add_def items_of_def Let_def update_conv' split: option.splits)

lemma binding_add:
  "binding (add self uuid name lbl bx bxn) u n =
     (if u = uuid \<and> n = name
      then Some \<lparr>label = lbl, box = bx, box_name = bxn, data = ''---''\<rparr>
      else binding self u n)"
  by (simp add: binding_def items_of_add update_conv')

lemma keys_add:
  "fst ` set (gc (add self uuid name lbl bx bxn)) = insert uuid (fst ` set (gc self))"
  "distinct (map fst (gc self)) \<Longrightarrow> distinct (map fst (gc (add self uuid name lbl bx bxn)))"
  using dom_update [of uuid _ "gc self"]
  by (auto simp: add_def Let_def distinct_update split: option.splits)

lemma names_add:
  "fst ` set (items_of (add self uuid name lbl bx bxn) u) =
     (if u = uuid then insert name (fst ` set (items_of self u)) else fst ` set (items_of self u))"
  "distinct (map fst (items_of self u)) \<Longrightarrow> distinct (map fst (items_of (add self uuid name lbl bx bxn) u))"
  using dom_update [of name _ "items_of self uuid"]
  by (auto simp: items_of_add distinct_update)

lemma add_all_append:
  "add_all self (calls @ calls') = add_all (add_all self calls) calls'"
  by (induction self calls rule: add_all.induct) auto

lemma add_all_inv:
  "distinct (map fst (gc self)) \<Longrightarrow> distinct (map fst (gc (add_all self calls)))"
  "distinct (map fst (items_of self u)) \<Longrightarrow> distinct (map fst (items_of (add_all self calls) u))"
  by (induction self calls rule: add_all.induct) (auto simp: keys_add names_add)

lemma add_all_keys:
  "fst ` set (gc (add_all self calls)) = fst ` set (gc self) \<union> fst ` set calls"
  by (induction self calls rule: add_all.induct) (auto simp: keys_add)

lemma add_all_names:
  "fst ` set (items_of (add_all self calls) u) =
     fst ` set (items_of self u) \<union> {n. (u, n) \<in> (\<lambda>c. (fst c, fst (snd c))) ` set calls}"
  by (induction self calls rule: add_all.induct) (auto simp: names_add)

text \<open>
  C6: \<^verbatim>\<open>add\<close> is total (it has no raising statement); after the call the entry of its
  key holds the arguments of the call and the cached \<open>data\<close> \<^verbatim>\<open>'---'\<close>, whatever was there
  before, and every other entry is as before; so in a run of calls the last call for a key
  wins. In a registry built by any run of calls, the device ids are those passed to
  \<^verbatim>\<open>add\<close>, the field names of a device are those passed to \<^verbatim>\<open>add\<close> for that device, and no
  device id and no field name of a device occurs twice.
\<close>

theorem add_last_call_wins:
  "binding (add self uuid name lbl bx bxn) u n =
     (if u = uuid \<and> n = name
      then Some \<lparr>label = lbl, box = bx, box_name = bxn, data = ''---''\<rparr>
      else binding self u n) \<and>
   binding (add_all self (calls @ [(uuid, name, lbl, bx, bxn)])) uuid name =
     Some \<lparr>label = lbl, box = bx, box_name = bxn, data = ''---''\<rparr> \<and>
   distinct (map fst (gc (add_all (GuiComp_init dd w) calls))) \<and>
   set (map fst (gc (add_all (GuiComp_init dd w) calls))) = set (map fst calls) \<and>
   distinct (map fst (items_of (add_all (GuiComp_init dd w) calls) u)) \<and>
   set (map fst (items_of (add_all (GuiComp_init dd w) calls) u)) =
     {n. (u, n) \<in> set (map (\<lambda>c. (fst c, fst (snd c))) calls)}"
proof -
  have e: "gc (GuiComp_init dd w) = []" "items_of (GuiComp_init dd w) u = []"
    by (simp_all add: GuiComp_init_def items_of_def)
  show ?thesis
    using add_all_inv(1) [of "GuiComp_init dd w" calls] add_all_inv(2) [of "GuiComp_init dd w" u calls]
      add_all_keys [of "GuiComp_init dd w" calls] add_all_names [of "GuiComp_init dd w" calls u]
    by (simp add: binding_add add_all_append e)
qed

text \<open>
  The theorem at two calls for the same key: the entry is the second call's, and the
  device has one field.
\<close>

theorem add_last_call_wins_witness:
  "binding (add (add (GuiComp_init \<lparr>uuids = [], getitem = (\<lambda>u n. None)\<rparr> 20)
              ''ups1'' ''mib_ups_name'' 11 None None)
              ''ups1'' ''mib_ups_name'' 12 (Some 13) (Some ''sys_stat_box'')) ''ups1'' ''mib_ups_name''
     = Some \<lparr>label = 12, box = Some 13, box_name = Some ''sys_stat_box'', data = ''---''\<rparr> \<and>
   map fst (items_of (add_all (GuiComp_init \<lparr>uuids = [], getitem = (\<lambda>u n. None)\<rparr> 20)
      [(''ups1'', ''mib_ups_name'', 11, None, None),
       (''ups1'', ''mib_ups_name'', 12, Some 13, Some ''sys_stat_box'')]) ''ups1'') = [''mib_ups_name'']"
proof -
  have "map fst (items_of (add_all (GuiComp_init \<lparr>uuids = [], getitem = (\<lambda>u n. None)\<rparr> 20)
      [(''ups1'', ''mib_ups_name'', 11, None, None),
       (''ups1'', ''mib_ups_name'', 12, Some 13, Some ''sys_stat_box'')]) ''ups1'') = [''mib_ups_name'']"
    by (simp add: items_of_def add_def GuiComp_init_def)
  then show ?thesis
    using add_last_call_wins [of "add (GuiComp_init \<lparr>uuids = [], getitem = (\<lambda>u n. None)\<rparr> 20)
              ''ups1'' ''mib_ups_name'' 11 None None" "''ups1''" "''mib_ups_name''" 12 "Some 13"
              "Some ''sys_stat_box''" "''ups1''" "''mib_ups_name''"]
    by simp
qed

subsection \<open>Colours\<close>

lemma is_hex_not_special:
  "is_hex c \<Longrightarrow> \<not> is_space c \<and> c \<noteq> CHR ''+'' \<and> c \<noteq> CHR ''-'' \<and> c \<noteq> CHR ''#''"
  by (auto simp: is_hex_def hex_digit_def is_space_def Let_def split: if_splits)

lemma hex_digit_less: "hex_digit c = Some d \<Longrightarrow> d < 16"
  by (auto simp: hex_digit_def Let_def split: if_splits)

lemma strip_hex: "ds \<noteq> [] \<Longrightarrow> list_all is_hex ds \<Longrightarrow> strip ds = ds"
proof -
  assume ne: "ds \<noteq> []" and h: "list_all is_hex ds"
  have "is_hex (hd ds)" "is_hex (last ds)" using ne h by (auto simp: list_all_iff)
  then have a: "dropWhile is_space ds = ds" and b: "dropWhile is_space (rev ds) = rev ds"
    using ne by (simp_all add: dropWhile_eq_self_iff hd_rev is_hex_not_special)
  show ?thesis by (simp add: strip_def a b)
qed

lemma int_base16_hex:
  assumes "ds \<noteq> []" and "list_all is_hex ds"
  shows "int_base16 ds = Some (int (hex_value ds))"
proof -
  obtain c r where ds: "ds = c # r" using assms(1) by (cases ds) auto
  have "is_hex c" using assms(2) ds by simp
  then have "c \<noteq> CHR ''+''" "c \<noteq> CHR ''-''" using is_hex_not_special by blast+
  moreover have "strip ds = ds" using assms by (rule strip_hex)
  ultimately show ?thesis
    using assms(2) by (simp add: int_base16_def ds unsigned_base16_def)
qed

lemma lstrip_hash_hex: "list_all is_hex (strip_one_hash v) \<Longrightarrow> lstrip_hash v = strip_one_hash v"
  by (cases v; cases "strip_one_hash v")
     (auto simp: strip_one_hash_def lstrip_hash_def dropWhile_eq_self_iff is_hex_not_special split: if_splits)

lemma six_hex_slices:
  assumes "six_hex v"
  shows "int_base16 (take 2 v) = Some (int (hex_value (take 2 v)))"
    and "int_base16 (take 2 (drop 2 v)) = Some (int (hex_value (take 2 (drop 2 v))))"
    and "int_base16 (take 2 (drop 4 v)) = Some (int (hex_value (take 2 (drop 4 v))))"
proof -
  have l: "length v = 6" and h: "list_all is_hex v" using assms by (simp_all add: six_hex_def)
  have t: "\<And>n xs. list_all is_hex xs \<Longrightarrow> list_all is_hex (take n xs)"
    by (auto simp: list_all_iff dest: in_set_takeD)
  have d: "\<And>n xs. list_all is_hex xs \<Longrightarrow> list_all is_hex (drop n xs)"
    by (auto simp: list_all_iff dest: in_set_dropD)
  show "int_base16 (take 2 v) = Some (int (hex_value (take 2 v)))"
    using l by (intro int_base16_hex t h) auto
  show "int_base16 (take 2 (drop 2 v)) = Some (int (hex_value (take 2 (drop 2 v))))"
    using l by (intro int_base16_hex t d h) auto
  show "int_base16 (take 2 (drop 4 v)) = Some (int (hex_value (take 2 (drop 4 v))))"
    using l by (intro int_base16_hex t d h) auto
qed

lemma hex_to_rgba_six_hex:
  assumes "HEXRGB v" and "six_hex (strip_one_hash v)"
  shows "hex_to_rgba HEXRGB v =
     Inr (channel (strip_one_hash v) 0, channel (strip_one_hash v) 2, channel (strip_one_hash v) 4, 1)"
proof -
  have ls: "lstrip_hash v = strip_one_hash v"
    using assms(2) by (simp add: lstrip_hash_hex six_hex_def)
  show ?thesis
    using assms six_hex_slices [OF assms(2)]
    by (simp add: hex_to_rgba_def ls channel_def six_hex_def Let_def)
qed

text \<open>
  Whatever the pattern accepts, \<^verbatim>\<open>#ZZZZZZ\<close> raises \<^verbatim>\<open>ValueError\<close>: from the test of the
  pattern, or from \<^verbatim>\<open>int('ZZ', 16)\<close>.
\<close>

lemma hex_to_rgba_ZZZZZZ_any_pattern:
  "\<exists>e. hex_to_rgba HEXRGB ''#ZZZZZZ'' = Inl (ValueError e)"
  by (simp add: hex_to_rgba_def lstrip_hash_def int_base16_def strip_def is_space_def
        unsigned_base16_def is_hex_def hex_digit_def)







lemma colors_lower: "list_all (\<lambda>k. map ascii_lower k = k) (map fst colors)"
  by (simp add: colors_def ascii_lower_def)

lemma colors_six_hex: "list_all (\<lambda>h. six_hex (strip_one_hash h)) (map snd colors)"
  by (simp add: colors_def six_hex_def strip_one_hash_def is_hex_def hex_digit_def)

lemma hex_value_byte:
  assumes "list_all is_hex ds" and "length ds \<le> 2"
  shows "hex_value ds \<le> 255"
proof -
  consider "ds = []" | a where "ds = [a]" | a b where "ds = [a, b]"
    using assms(2) by (cases ds; cases "tl ds"; cases "tl (tl ds)") auto
  then show ?thesis
  proof cases
    case 1 then show ?thesis by (simp add: hex_value_def)
  next
    case 2
    then obtain d where "hex_digit a = Some d" using assms(1) by (auto simp: is_hex_def)
    then show ?thesis using 2 hex_digit_less [of a d] by (simp add: hex_value_def)
  next
    case 3
    then obtain d e where "hex_digit a = Some d" "hex_digit b = Some e"
      using assms(1) by (auto simp: is_hex_def)
    then show ?thesis using 3 hex_digit_less [of a d] hex_digit_less [of b e] by (simp add: hex_value_def)
  qed
qed

lemma channel_range:
  assumes "list_all is_hex v"
  shows "0 \<le> channel v i \<and> channel v i \<le> 1"
proof -
  have "list_all is_hex (take 2 (drop i v))"
    using assms by (auto simp: list_all_iff dest: in_set_takeD in_set_dropD)
  then have "hex_value (take 2 (drop i v)) \<le> 255" by (rule hex_value_byte) simp
  then show ?thesis by (simp add: channel_def)
qed

text \<open>
  C8: for every pattern \<^verbatim>\<open>HEXRGB\<close> that accepts the values of the palette:
  \<^verbatim>\<open>color_name_to_hex\<close> and \<^verbatim>\<open>color_name_to_rgba\<close> succeed exactly for the keys of
  \<^verbatim>\<open>_colors\<close> and raise \<^verbatim>\<open>ValueError\<close> ("Invalid color name", the spec's
  UnknownColorError) for every other string, a case variant of a key included (no key has
  an upper-case letter); on success \<^verbatim>\<open>color_name_to_rgba\<close> returns three components
  between 0 and 1 and the alpha 1.
\<close>

theorem color_names:
  assumes "list_all HEXRGB (map snd colors)"
  shows "color_name_to_hex v =
           (case map_of colors v of None \<Rightarrow> Inl (ValueError Invalid_color_name) | Some h \<Rightarrow> Inr h) \<and>
         (v \<notin> set (map fst colors) \<longrightarrow>
            map_of colors v = None \<and>
            color_name_to_rgba HEXRGB v = Inl (ValueError Invalid_color_name)) \<and>
         (v \<in> set (map fst colors) \<longrightarrow>
            (\<exists>h r g b. color_name_to_hex v = Inr h \<and>
               color_name_to_rgba HEXRGB v = Inr (r, g, b, 1) \<and>
               0 \<le> r \<and> r \<le> 1 \<and> 0 \<le> g \<and> g \<le> 1 \<and> 0 \<le> b \<and> b \<le> 1)) \<and>
         (v \<in> set (map fst colors) \<and> case_variant v' v \<longrightarrow>
            color_name_to_hex v' = Inl (ValueError Invalid_color_name) \<and>
            color_name_to_rgba HEXRGB v' = Inl (ValueError Invalid_color_name))"
proof -
  have notin: "\<And>x. x \<notin> set (map fst colors) \<Longrightarrow> map_of colors x = None"
    by (simp add: map_of_eq_None_iff)
  have 1: "color_name_to_hex v =
           (case map_of colors v of None \<Rightarrow> Inl (ValueError Invalid_color_name) | Some h \<Rightarrow> Inr h)"
    by (cases "v \<in> set (map fst colors)")
       (auto simp: color_name_to_hex_def notin map_of_eq_None_iff split: option.splits)
  have fail: "\<And>x. x \<notin> set (map fst colors) \<Longrightarrow>
      color_name_to_hex x = Inl (ValueError Invalid_color_name) \<and>
      color_name_to_rgba HEXRGB x = Inl (ValueError Invalid_color_name)"
    by (simp add: color_name_to_hex_def color_name_to_rgba_def)
  have 3: "v \<in> set (map fst colors) \<longrightarrow>
            (\<exists>h r g b. color_name_to_hex v = Inr h \<and>
               color_name_to_rgba HEXRGB v = Inr (r, g, b, 1) \<and>
               0 \<le> r \<and> r \<le> 1 \<and> 0 \<le> g \<and> g \<le> 1 \<and> 0 \<le> b \<and> b \<le> 1)"
  proof
    assume k: "v \<in> set (map fst colors)"
    then obtain h where h: "map_of colors v = Some h"
      by (cases "map_of colors v") (auto simp: map_of_eq_None_iff)
    then have "h \<in> set (map snd colors)" by (force dest: map_of_SomeD)
    then have P: "HEXRGB h" and six: "six_hex (strip_one_hash h)"
      using assms colors_six_hex by (auto simp: list_all_iff)
    have "list_all is_hex (strip_one_hash h)" using six by (simp add: six_hex_def)
    note rng = channel_range [OF this]
    have "color_name_to_rgba HEXRGB v =
        Inr (channel (strip_one_hash h) 0, channel (strip_one_hash h) 2, channel (strip_one_hash h) 4, 1)"
      using k h by (simp add: color_name_to_rgba_def hex_to_rgba_six_hex [of HEXRGB h, OF P six])
    moreover have "color_name_to_hex v = Inr h" using h by (simp add: 1)
    ultimately show "\<exists>h r g b. color_name_to_hex v = Inr h \<and>
               color_name_to_rgba HEXRGB v = Inr (r, g, b, 1) \<and>
               0 \<le> r \<and> r \<le> 1 \<and> 0 \<le> g \<and> g \<le> 1 \<and> 0 \<le> b \<and> b \<le> 1"
      using rng by blast
  qed
  have 4: "v \<in> set (map fst colors) \<and> case_variant v' v \<longrightarrow>
            color_name_to_hex v' = Inl (ValueError Invalid_color_name) \<and>
            color_name_to_rgba HEXRGB v' = Inl (ValueError Invalid_color_name)"
  proof
    assume a: "v \<in> set (map fst colors) \<and> case_variant v' v"
    have "v' \<notin> set (map fst colors)"
    proof
      assume "v' \<in> set (map fst colors)"
      then have "map ascii_lower v' = v'" "map ascii_lower v = v"
        using a colors_lower by (auto simp: list_all_iff)
      then show False using a by (simp add: case_variant_def)
    qed
    then show "color_name_to_hex v' = Inl (ValueError Invalid_color_name) \<and>
            color_name_to_rgba HEXRGB v' = Inl (ValueError Invalid_color_name)"
      by (rule fail)
  qed
  from 1 fail [of v] notin [of v] 3 4 show ?thesis by blast
qed

text \<open>
  The theorem at the key \<^verbatim>\<open>slate_md\<close>, its case variant \<^verbatim>\<open>Slate_md\<close> and the unknown
  name \<^verbatim>\<open>pink\<close>.
\<close>

theorem color_names_witness:
  "color_name_to_hex ''slate_md'' = Inr ''#80808d'' \<and>
   color_name_to_rgba HEXRGB_rrggbb ''slate_md'' = Inr (128 / 255, 128 / 255, 141 / 255, 1) \<and>
   color_name_to_hex ''Slate_md'' = Inl (ValueError Invalid_color_name) \<and>
   color_name_to_rgba HEXRGB_rrggbb ''Slate_md'' = Inl (ValueError Invalid_color_name) \<and>
   color_name_to_hex ''pink'' = Inl (ValueError Invalid_color_name)"
proof -
  have h: "list_all HEXRGB_rrggbb (map snd colors)"
    by (simp add: colors_def HEXRGB_rrggbb_def six_hex_def is_hex_def hex_digit_def)
  have k: "''slate_md'' \<in> set (map fst colors)" "''pink'' \<notin> set (map fst colors)"
    by (simp_all add: colors_def)
  have cv: "case_variant ''Slate_md'' ''slate_md''"
    by (simp add: case_variant_def ascii_lower_def)
  have m: "map_of colors ''slate_md'' = Some ''#80808d''" "map_of colors ''pink'' = None"
    by (simp_all add: colors_def)
  have r: "color_name_to_rgba HEXRGB_rrggbb ''slate_md'' = Inr (128 / 255, 128 / 255, 141 / 255, 1)"
    using k(1)
    by (simp add: color_name_to_rgba_def m hex_to_rgba_def HEXRGB_rrggbb_def six_hex_def
          strip_one_hash_def lstrip_hash_def is_hex_def hex_digit_def int_base16_def strip_def
          is_space_def unsigned_base16_def hex_value_def)
  note c1 = color_names [OF h, of "''slate_md''" "''Slate_md''"]
  have a: "color_name_to_hex ''slate_md'' = Inr ''#80808d''"
    using c1 [THEN conjunct1] by (simp add: m)
  have b: "color_name_to_hex ''Slate_md'' = Inl (ValueError Invalid_color_name) \<and>
      color_name_to_rgba HEXRGB_rrggbb ''Slate_md'' = Inl (ValueError Invalid_color_name)"
    using c1 k(1) cv by blast
  have c: "color_name_to_hex ''pink'' = Inl (ValueError Invalid_color_name)"
    using color_names [OF h, of "''pink''", THEN conjunct1] by (simp add: m)
  from a b c r show ?thesis by blast
qed

subsection \<open>The default style\<close>

lemma set_style_None:
  "set_style None =
     Inr [''grid { background-image: image(#333333); }'',
          ''#light_grid { background-image: image(#CCCCCC); }'',
          ''#dark_grid { background-image: image(#4D4D4D); }'',
          ''#dark_box { background-image: image(#5D5D67); }'',
          ''#med_box { background-image: image(#80808d); }'',
          ''#light_box { background-image: image(#A0A0AA); }'',
          ''#head_box { background-image: image(#587498); }'',
          ''#warn_box { background-image: image(#B73743); }'',
          ''#button_box { background-image: image(#5D5D67); }'',
          ''#out_load_box { background-image: image(#80808d); }'',
          ''#out_load_label { color: #FCFCFC; }'',
          ''#bat_cap_box { background-image: image(#80808d); }'',
          ''#bat_cap_label { color: #FCFCFC; }'',
          ''#sys_stat_box { background-image: image(#80808d); }'',
          ''#sys_stat_label { color: #FCFCFC; }'',
          ''#bat_stat_box { background-image: image(#80808d); }'',
          ''#bat_stat_label { color: #FCFCFC; }'',
          ''#message_box { background-image: image(#7F7F7F); }'',
          ''#message_label { color: #FCFCFC; }'',
          ''#warn_label { color: #F0E5D3; }'',
          ''#white_label { color: #FCFCFC; }'',
          ''#black_label { color: #0D0D0D; }'',
          ''#ppm_combo { background-image: image(#8EC3A7); color: #000000; }'',
          ''button { background-image: image(#A0A0AA); color: #000000; }'',
          ''entry { background-image: image(#8EC3A7); color: #0D0D0D; }'',
          ''entry:selected { background-image: image(#C9A100); color: #FFFFFF; }'']"
  by code_simp

lemma style_rules_table:
  "style_rules style_table =
     Inr [''grid { background-image: image(#333333); }'',
          ''#light_grid { background-image: image(#CCCCCC); }'',
          ''#dark_grid { background-image: image(#4D4D4D); }'',
          ''#dark_box { background-image: image(#5D5D67); }'',
          ''#med_box { background-image: image(#80808d); }'',
          ''#light_box { background-image: image(#A0A0AA); }'',
          ''#head_box { background-image: image(#587498); }'',
          ''#warn_box { background-image: image(#B73743); }'',
          ''#button_box { background-image: image(#5D5D67); }'',
          ''#out_load_box { background-image: image(#80808d); }'',
          ''#out_load_label { color: #FCFCFC; }'',
          ''#bat_cap_box { background-image: image(#80808d); }'',
          ''#bat_cap_label { color: #FCFCFC; }'',
          ''#sys_stat_box { background-image: image(#80808d); }'',
          ''#sys_stat_label { color: #FCFCFC; }'',
          ''#bat_stat_box { background-image: image(#80808d); }'',
          ''#bat_stat_label { color: #FCFCFC; }'',
          ''#message_box { background-image: image(#7F7F7F); }'',
          ''#message_label { color: #FCFCFC; }'',
          ''#warn_label { color: #F0E5D3; }'',
          ''#white_label { color: #FCFCFC; }'',
          ''#black_label { color: #0D0D0D; }'',
          ''#ppm_combo { background-image: image(#8EC3A7); color: #000000; }'',
          ''button { background-image: image(#A0A0AA); color: #000000; }'',
          ''entry { background-image: image(#8EC3A7); color: #0D0D0D; }'']"
  by code_simp

text \<open>
  C9 (as amended): the default \<^verbatim>\<open>css_list\<close> of \<^verbatim>\<open>set_style\<close> is a constant (it depends
  on no argument and no state, so every call builds the same list). It holds one rule for
  each of the 25 regions of the table, in the order of the table and with the colours
  looked up in the palette, followed by one more rule,
  \<^verbatim>\<open>entry:selected\<close> with the background \<^verbatim>\<open>yellow\<close> and the text colour \<^verbatim>\<open>white\<close>: 26 rules.
\<close>

theorem set_style_default:
  "set_style None =
     (case style_rules style_table of
        Inl e \<Rightarrow> Inl e
      | Inr rules \<Rightarrow>
          Inr (rules @ [''entry:selected { background-image: image(#C9A100); color: #FFFFFF; }''])) \<and>
   map_sum id length (style_rules style_table) = Inr 25 \<and>
   map_sum id length (set_style None) = Inr 26 \<and>
   color_name_to_hex ''yellow'' = Inr ''#C9A100'' \<and> color_name_to_hex ''white'' = Inr ''#FFFFFF''"
  by (simp add: set_style_None style_rules_table) (simp add: color_name_to_hex_def colors_def)

text \<open>The theorem read at the number of rules.\<close>

theorem set_style_default_witness:
  "map_sum id length (set_style None) = Inr 26"
  using set_style_default by blast

text \<open>
  C9 as stated fails: the rule for \<^verbatim>\<open>entry:selected\<close> is in the default list and is the
  rule of no region of the table.
\<close>

theorem set_style_default_counterexample:
  "''entry:selected { background-image: image(#C9A100); color: #FFFFFF; }''
     \<in> set (projr (set_style None)) \<and>
   ''entry:selected { background-image: image(#C9A100); color: #FFFFFF; }''
     \<notin> set (projr (style_rules style_table))"
  by (simp add: set_style_None style_rules_table)

end
